theory Spec2Isabelle
  imports Complex_Main "HOL-Library.AList"
begin

section \<open>Python values\<close>

text \<open>
  A Python \<^verbatim>\<open>float\<close> is a finite float, one of the two infinities, or NaN. A finite
  float is read as the real number it denotes and arithmetic on finite floats is exact:
  rounding is outside the model. The infinities and NaN are what \<^verbatim>\<open>json.loads\<close>
  makes of \<^verbatim>\<open>Infinity\<close>, \<^verbatim>\<open>-Infinity\<close>, \<^verbatim>\<open>NaN\<close> and of a literal beyond
  the float range such as \<^verbatim>\<open>1e400\<close>.
\<close>

datatype pyfloat = Finite real | PosInf | NegInf | NaN

text \<open>
  Both scripts handle dynamically typed values: whatever \<^verbatim>\<open>json.loads\<close> produces
  from a message, and whatever the remote store holds in a document. A value is
  \<^verbatim>\<open>None\<close>, a bool, an int (unbounded), a float, a string, a list or a dict with
  string keys; a dict is the list of its items, in insertion order, each key once.
  A string is given by its UTF-8 encoding; a string that holds a lone surrogate (which
  \<^verbatim>\<open>json.loads\<close> makes of the escape of one) has none, and is given by its code
  points.
\<close>

datatype pyval =
    PyNone
  | PyBool bool
  | PyInt int
  | PyFloat pyfloat
  | PyStr string
  | PyStrSurrogate "nat list"
  | PyList "pyval list"
  | PyDict "(string \<times> pyval) list"

text \<open>The exceptions the two scripts can meet.\<close>

datatype pyerr =
    TypeError
  | ValueError
  | KeyError
  | AttributeError
  | OverflowError
  | ZeroDivisionError
  | JSONDecodeError
  | UnicodeDecodeError
  | UnicodeEncodeError
  | OperationalError
  | IntegrityError
  | InterfaceError

subsection \<open>Float comparison and arithmetic\<close>

text \<open>\<^verbatim>\<open>a < b\<close> and \<^verbatim>\<open>a == b\<close> on floats: every comparison with NaN is false.\<close>

fun float_lt :: "pyfloat \<Rightarrow> pyfloat \<Rightarrow> bool" where
  "float_lt (Finite x) (Finite y) = (x < y)"
| "float_lt NaN b = False"
| "float_lt a NaN = False"
| "float_lt NegInf b = (b \<noteq> NegInf)"
| "float_lt a PosInf = (a \<noteq> PosInf)"
| "float_lt a b = False"

definition float_eq :: "pyfloat \<Rightarrow> pyfloat \<Rightarrow> bool" where
  "float_eq a b = (a \<noteq> NaN \<and> a = b)"

text \<open>\<^verbatim>\<open>c - b\<close> for a finite float \<open>c\<close>.\<close>

fun float_sub :: "real \<Rightarrow> pyfloat \<Rightarrow> pyfloat" where
  "float_sub c (Finite x) = Finite (c - x)"
| "float_sub c PosInf = NegInf"
| "float_sub c NegInf = PosInf"
| "float_sub c NaN = NaN"

text \<open>\<^verbatim>\<open>a / c\<close> for a finite float \<open>c\<close>: division by zero raises.\<close>

definition float_div :: "pyfloat \<Rightarrow> real \<Rightarrow> pyerr + pyfloat" where
  "float_div a c =
     (if c = 0 then Inl ZeroDivisionError
      else case a of
             Finite x \<Rightarrow> Inr (Finite (x / c))
           | PosInf \<Rightarrow> Inr (if 0 < c then PosInf else NegInf)
           | NegInf \<Rightarrow> Inr (if 0 < c then NegInf else PosInf)
           | NaN \<Rightarrow> Inr NaN)"

text \<open>\<^verbatim>\<open>a * c\<close> for a finite float \<open>c\<close>.\<close>

fun float_mul :: "pyfloat \<Rightarrow> real \<Rightarrow> pyfloat" where
  "float_mul (Finite x) c = Finite (x * c)"
| "float_mul NaN c = NaN"
| "float_mul PosInf c = (if 0 < c then PosInf else if c < 0 then NegInf else NaN)"
| "float_mul NegInf c = (if 0 < c then NegInf else if c < 0 then PosInf else NaN)"

text \<open>
  \<^verbatim>\<open>min(a, b)\<close> and \<^verbatim>\<open>max(a, b)\<close>: the first argument, unless the second is
  less (is greater).
\<close>

definition float_min :: "pyfloat \<Rightarrow> pyfloat \<Rightarrow> pyfloat" where
  "float_min a b = (if float_lt b a then b else a)"

definition float_max :: "pyfloat \<Rightarrow> pyfloat \<Rightarrow> pyfloat" where
  "float_max a b = (if float_lt a b then b else a)"

subsection \<open>Numbers among the values\<close>

text \<open>
  A bool is an integer in Python (\<^verbatim>\<open>True == 1\<close>, \<^verbatim>\<open>30.0 - True == 29.0\<close>).
  \<open>num_of\<close> reads the exact numeric value of a bool, an int or a float; comparisons
  between an int and a float are exact. It is \<open>None\<close> on every other value, where
  arithmetic and ordering against a number raise \<^verbatim>\<open>TypeError\<close>.
\<close>

fun num_of :: "pyval \<Rightarrow> pyfloat option" where
  "num_of (PyBool b) = Some (Finite (if b then 1 else 0))"
| "num_of (PyInt n) = Some (Finite (of_int n))"
| "num_of (PyFloat a) = Some a"
| "num_of v = None"

text \<open>
  An int operand of float arithmetic is converted to a float first, which raises
  \<^verbatim>\<open>OverflowError\<close> when the int rounds to 2^1024 or beyond; the least such
  magnitude is half-way between the largest float, 2^1024 - 2^971, and 2^1024.
\<close>

definition float_limit :: int where
  "float_limit = 2 ^ 1024 - 2 ^ 970"

fun to_float :: "pyval \<Rightarrow> pyerr + pyfloat" where
  "to_float (PyBool b) = Inr (Finite (if b then 1 else 0))"
| "to_float (PyInt n) = (if \<bar>n\<bar> < float_limit then Inr (Finite (of_int n)) else Inl OverflowError)"
| "to_float (PyFloat a) = Inr a"
| "to_float v = Inl TypeError"

text \<open>
  Python's \<^verbatim>\<open>==\<close>: lists are equal when their elements are, in order; dicts when
  they have the same keys with equal values, in any order; two numbers (bools
  included) when their values agree; any other two values when they are the same.
\<close>

fun py_eq :: "pyval \<Rightarrow> pyval \<Rightarrow> bool" where
  "py_eq (PyList xs) (PyList ys) = list_all2 py_eq xs ys"
| "py_eq (PyDict kvs) (PyDict kws) =
     (set (map fst kvs) = set (map fst kws) \<and>
      (\<forall>(k, v)\<in>set kvs. case map_of kws k of None \<Rightarrow> False | Some w \<Rightarrow> py_eq v w))"
| "py_eq a b =
     (case (num_of a, num_of b) of
        (Some x, Some y) \<Rightarrow> float_eq x y
      | (None, None) \<Rightarrow> a = b
      | _ \<Rightarrow> False)"

text \<open>\<^verbatim>\<open>v < c\<close> for a numeric constant \<open>c\<close>.\<close>

definition py_lt_num :: "pyval \<Rightarrow> real \<Rightarrow> pyerr + bool" where
  "py_lt_num v c =
     (case num_of v of None \<Rightarrow> Inl TypeError | Some x \<Rightarrow> Inr (float_lt x (Finite c)))"

text \<open>Truth value of a value in a condition (\<^verbatim>\<open>if v:\<close>).\<close>

fun truthy :: "pyval \<Rightarrow> bool" where
  "truthy PyNone = False"
| "truthy (PyBool b) = b"
| "truthy (PyInt n) = (n \<noteq> 0)"
| "truthy (PyFloat a) = (a \<noteq> Finite 0)"
| "truthy (PyStr s) = (s \<noteq> [])"
| "truthy (PyStrSurrogate cs) = (cs \<noteq> [])"
| "truthy (PyList vs) = (vs \<noteq> [])"
| "truthy (PyDict kvs) = (kvs \<noteq> [])"

text \<open>\<^verbatim>\<open>data.get(key, default)\<close>: only a dict has the method.\<close>

definition py_get :: "pyval \<Rightarrow> string \<Rightarrow> pyval \<Rightarrow> pyerr + pyval" where
  "py_get data k dflt =
     (case data of
        PyDict kvs \<Rightarrow> (case map_of kvs k of None \<Rightarrow> Inr dflt | Some v \<Rightarrow> Inr v)
      | _ \<Rightarrow> Inl AttributeError)"

section \<open>The ingester (iot\_mqtt.py)\<close>

subsection \<open>Configuration\<close>

definition TOPIC_SENSOR :: string where
  "TOPIC_SENSOR = ''shelf/sensor''"

definition TOPIC_STATUS :: string where
  "TOPIC_STATUS = ''shelf/status''"

definition TOPIC_COMMAND :: string where
  "TOPIC_COMMAND = ''shelf/command''"

record shelf_config =
  max_distance :: real

definition SHELF_CONFIG :: "string \<Rightarrow> shelf_config option" where
  "SHELF_CONFIG =
     [''A1'' \<mapsto> \<lparr>max_distance = 30\<rparr>,
      ''A2'' \<mapsto> \<lparr>max_distance = 30\<rparr>,
      ''B1'' \<mapsto> \<lparr>max_distance = 20\<rparr>]"

text \<open>
  \<^verbatim>\<open>shelf_id not in SHELF_CONFIG\<close> followed by \<^verbatim>\<open>SHELF_CONFIG[shelf_id]\<close>: a list or a
  dict is unhashable and the test raises; the keys of the table are strings, so a value
  of any other kind is not a key.
\<close>

definition shelf_lookup :: "pyval \<Rightarrow> pyerr + shelf_config option" where
  "shelf_lookup shelf_id =
     (case shelf_id of
        PyStr s \<Rightarrow> Inr (SHELF_CONFIG s)
      | PyList _ \<Rightarrow> Inl TypeError
      | PyDict _ \<Rightarrow> Inl TypeError
      | _ \<Rightarrow> Inr None)"

subsection \<open>analyze\_shelf\_data\<close>

text \<open>
  \<^verbatim>\<open>max_distance - distance_cm\<close> is float arithmetic: it raises \<^verbatim>\<open>TypeError\<close> on a
  distance that is no number and \<^verbatim>\<open>OverflowError\<close> on an int beyond the float
  range. The fill percentage \<^verbatim>\<open>max(0.0, min(100.0, fill_percent))\<close> is a float.
\<close>

definition analyze_shelf_data :: "pyval \<Rightarrow> pyval \<Rightarrow> pyerr + (bool \<times> pyfloat)" where
  "analyze_shelf_data shelf_id distance_cm =
     (case shelf_lookup shelf_id of
        Inl e \<Rightarrow> Inl e
      | Inr None \<Rightarrow> Inr (False, Finite 0)
      | Inr (Some config) \<Rightarrow>
          (case to_float distance_cm of
             Inl e \<Rightarrow> Inl e
           | Inr d \<Rightarrow>
               (let occupied_space = float_sub (max_distance config) d in
                if float_lt (Finite 2) occupied_space
                then (case float_div occupied_space (max_distance config) of
                        Inl e \<Rightarrow> Inl e
                      | Inr ratio \<Rightarrow>
                          Inr (True, float_max (Finite 0)
                                       (float_min (Finite 100) (float_mul ratio 100))))
                else Inr (False, Finite 0))))"

subsection \<open>The local store and the console\<close>

text \<open>
  A clock reading (\<^verbatim>\<open>datetime.datetime.now()\<close>) is an input of the function that
  takes it. The fixed-width text \<^verbatim>\<open>%Y-%m-%d %H:%M:%S\<close> orders as the time line does,
  so a reading is a number of seconds.
\<close>

type_synonym timestamp = nat

text \<open>
  A row of \<^verbatim>\<open>sensor_data\<close> has the five columns the \<^verbatim>\<open>INSERT\<close> names, holding the
  values bound to the statement (the conversion SQLite applies under the column's
  affinity is not modelled, nor is the \<^verbatim>\<open>id\<close> it assigns, which the program never
  reads).
\<close>

record row =
  row_shelf_id :: pyval
  row_distance_cm :: pyval
  row_occupied :: int
  row_fill_percent :: pyfloat
  row_timestamp :: timestamp

text \<open>
  One entry per block of \<^verbatim>\<open>print\<close> calls. The formatting and the encoding of a
  line are not modelled: the console is taken to accept every line. (The handlers print
  after the store has been written, so a line that fails leaves the table as it is.)
\<close>

datatype event =
    DatabaseReady
  | SaveFailed pyerr
  | Connected
  | Subscribed string
  | Banner
  | ConnectFailed int
  | InvalidData timestamp pyval pyval
  | SensorReport timestamp pyval pyval bool pyfloat
  | JsonFailed
  | HandlingFailed pyerr
  | StatusHeader timestamp
  | StatusField string pyval
  | StatusUptime int int int
  | StatusRaw

text \<open>
  The state the ingester acts on: the table \<^verbatim>\<open>sensor_data\<close> of \<^verbatim>\<open>shelf_data.db\<close>
  (\<open>None\<close> until it is created), the lines printed so far and the topics the client is
  subscribed to. Failures of the file system and of the network are outside the model.
\<close>

record world =
  sensor_data :: "row list option"
  console :: "event list"
  subscriptions :: "string list"

definition print :: "event \<Rightarrow> world \<Rightarrow> world" where
  "print e w = w\<lparr>console := console w @ [e]\<rparr>"

definition stored_rows :: "world \<Rightarrow> row list" where
  "stored_rows w = (case sensor_data w of None \<Rightarrow> [] | Some rows \<Rightarrow> rows)"

subsection \<open>init\_database\<close>

definition init_database :: "world \<Rightarrow> world" where
  "init_database w =
     print DatabaseReady
       (case sensor_data w of
          None \<Rightarrow> w\<lparr>sensor_data := Some []\<rparr>
        | Some rows \<Rightarrow> w)"

subsection \<open>save\_to\_database\<close>

text \<open>
  What the driver does with a bound parameter: a list or a dict has no SQLite type
  (\<^verbatim>\<open>InterfaceError\<close>, or \<^verbatim>\<open>ProgrammingError\<close> in later versions of the driver),
  an int must fit 64 bits, a string must encode as UTF-8. \<^verbatim>\<open>None\<close> and NaN are stored
  as \<^verbatim>\<open>NULL\<close>, which the \<^verbatim>\<open>NOT NULL\<close> columns refuse.
\<close>

fun bind_error :: "pyval \<Rightarrow> pyerr option" where
  "bind_error (PyList vs) = Some InterfaceError"
| "bind_error (PyDict kvs) = Some InterfaceError"
| "bind_error (PyInt n) = (if - (2 ^ 63) \<le> n \<and> n < 2 ^ 63 then None else Some OverflowError)"
| "bind_error (PyStrSurrogate cs) = Some UnicodeEncodeError"
| "bind_error v = None"

fun sql_null :: "pyval \<Rightarrow> bool" where
  "sql_null PyNone = True"
| "sql_null (PyFloat a) = (a = NaN)"
| "sql_null v = False"

text \<open>
  The statement is prepared (there must be a table), its parameters are bound in order,
  and the row is checked against the constraints of the table.
\<close>

definition sql_insert :: "row \<Rightarrow> row list option \<Rightarrow> pyerr + row list" where
  "sql_insert r table =
     (case table of
        None \<Rightarrow> Inl OperationalError
      | Some rows \<Rightarrow>
          (case bind_error (row_shelf_id r) of
             Some e \<Rightarrow> Inl e
           | None \<Rightarrow>
               (case bind_error (row_distance_cm r) of
                  Some e \<Rightarrow> Inl e
                | None \<Rightarrow>
                    if sql_null (row_shelf_id r) \<or> sql_null (row_distance_cm r)
                       \<or> row_fill_percent r = NaN
                    then Inl IntegrityError
                    else Inr (rows @ [r]))))"

definition save_to_database ::
    "pyval \<Rightarrow> pyval \<Rightarrow> bool \<Rightarrow> pyfloat \<Rightarrow> timestamp \<Rightarrow> world \<Rightarrow> bool \<times> world" where
  "save_to_database shelf_id distance_cm occupied fill_percent current_time w =
     (case sql_insert
             \<lparr>row_shelf_id = shelf_id, row_distance_cm = distance_cm,
              row_occupied = (if occupied then 1 else 0), row_fill_percent = fill_percent,
              row_timestamp = current_time\<rparr>
             (sensor_data w) of
        Inr rows \<Rightarrow> (True, w\<lparr>sensor_data := Some rows\<rparr>)
      | Inl e \<Rightarrow> (False, print (SaveFailed e) w))"

subsection \<open>MQTT callbacks\<close>

definition on_connect :: "int \<Rightarrow> world \<Rightarrow> world" where
  "on_connect rc w =
     (if rc = 0
      then print Banner
             (print (Subscribed TOPIC_STATUS)
               ((print (Subscribed TOPIC_SENSOR) (print Connected w))
                  \<lparr>subscriptions := subscriptions w @ [TOPIC_SENSOR, TOPIC_STATUS]\<rparr>))
      else print (ConnectFailed rc) w)"

text \<open>
  The text of a message is given by what \<^verbatim>\<open>json.loads\<close> makes of it: \<open>None\<close> where it
  raises \<^verbatim>\<open>JSONDecodeError\<close>.
\<close>

type_synonym payload = "pyval option"

definition handle_sensor_message :: "payload \<Rightarrow> timestamp \<Rightarrow> timestamp \<Rightarrow> world \<Rightarrow> world" where
  "handle_sensor_message payload timestamp current_time w =
     (case payload of
        None \<Rightarrow> print JsonFailed w
      | Some data \<Rightarrow>
          (case py_get data ''shelf_id'' (PyStr ''N/A'') of
             Inl e \<Rightarrow> print (HandlingFailed e) w
           | Inr shelf_id \<Rightarrow>
               (case py_get data ''distance_cm'' (PyInt (- 1)) of
                  Inl e \<Rightarrow> print (HandlingFailed e) w
                | Inr distance_cm \<Rightarrow>
                    if py_eq distance_cm (PyInt (- 1))
                    then print (InvalidData timestamp shelf_id distance_cm) w
                    else
                      (case py_lt_num distance_cm 0 of
                         Inl e \<Rightarrow> print (HandlingFailed e) w
                       | Inr True \<Rightarrow> print (InvalidData timestamp shelf_id distance_cm) w
                       | Inr False \<Rightarrow>
                           (case analyze_shelf_data shelf_id distance_cm of
                              Inl e \<Rightarrow> print (HandlingFailed e) w
                            | Inr (occupied, fill_percent) \<Rightarrow>
                                print (SensorReport timestamp shelf_id distance_cm occupied fill_percent)
                                  (snd (save_to_database shelf_id distance_cm occupied fill_percent
                                          current_time w)))))))"

text \<open>
  \<^verbatim>\<open>uptime_ms / 1000\<close>: the quotient of two ints is the float nearest to it, and
  raises \<^verbatim>\<open>OverflowError\<close> when that is beyond the float range; a float is divided
  as a float.
\<close>

fun py_truediv :: "pyval \<Rightarrow> int \<Rightarrow> pyerr + pyfloat" where
  "py_truediv (PyFloat a) c = float_div a (of_int c)"
| "py_truediv v c =
     (case num_of v of
        Some (Finite x) \<Rightarrow>
          if c = 0 then Inl ZeroDivisionError
          else if \<bar>x\<bar> < of_int (\<bar>c\<bar> * float_limit) then Inr (Finite (x / of_int c))
          else Inl OverflowError
      | _ \<Rightarrow> Inl TypeError)"

text \<open>
  \<^verbatim>\<open>handle_status_message\<close> catches \<^verbatim>\<open>JSONDecodeError\<close> only; any other exception
  leaves the function, after the lines printed before it. \<^verbatim>\<open>int(...)\<close> of the
  floor division raises \<^verbatim>\<open>ValueError\<close> on an uptime that is not finite (the
  quotient is NaN).
\<close>

definition handle_status_message :: "payload \<Rightarrow> timestamp \<Rightarrow> world \<Rightarrow> pyerr option \<times> world" where
  "handle_status_message payload timestamp w =
     (let w1 = print (StatusHeader timestamp) w in
      case payload of
        None \<Rightarrow> (None, print StatusRaw w1)
      | Some data \<Rightarrow>
          (case py_get data ''wifi'' (PyStr ''N/A'') of
             Inl e \<Rightarrow> (Some e, w1)
           | Inr wifi \<Rightarrow>
               (let w2 = print (StatusField ''wifi'' wifi) w1 in
                case py_get data ''mqtt'' (PyStr ''N/A'') of
                  Inl e \<Rightarrow> (Some e, w2)
                | Inr mqtt \<Rightarrow>
                    (let w3 = print (StatusField ''mqtt'' mqtt) w2 in
                     case py_get data ''uptime_ms'' (PyInt 0) of
                       Inl e \<Rightarrow> (Some e, w3)
                     | Inr uptime_ms \<Rightarrow>
                         (case py_truediv uptime_ms 1000 of
                            Inl e \<Rightarrow> (Some e, w3)
                          | Inr (Finite uptime_seconds) \<Rightarrow>
                              (let hours = \<lfloor>uptime_seconds / 3600\<rfloor>;
                                   minutes = \<lfloor>(uptime_seconds - 3600 * of_int \<lfloor>uptime_seconds / 3600\<rfloor>) / 60\<rfloor>;
                                   seconds = \<lfloor>uptime_seconds - 60 * of_int \<lfloor>uptime_seconds / 60\<rfloor>\<rfloor>;
                                   w4 = print (StatusUptime hours minutes seconds) w3
                               in case py_get data ''shelf_count'' (PyStr ''N/A'') of
                                    Inl e \<Rightarrow> (Some e, w4)
                                  | Inr shelf_count \<Rightarrow>
                                      (None, print (StatusField ''shelf_count'' shelf_count) w4))
                          | Inr _ \<Rightarrow> (Some ValueError, w3))))))"

text \<open>
  A message carries a topic and the bytes of its payload; the payload is \<open>None\<close> where
  \<^verbatim>\<open>decode('utf-8')\<close> raises, which \<^verbatim>\<open>on_message\<close> does not catch.
\<close>

record mqtt_msg =
  topic :: string
  payload_bytes :: "payload option"

definition on_message :: "mqtt_msg \<Rightarrow> timestamp \<Rightarrow> timestamp \<Rightarrow> world \<Rightarrow> pyerr option \<times> world" where
  "on_message msg timestamp current_time w =
     (case payload_bytes msg of
        None \<Rightarrow> (Some UnicodeDecodeError, w)
      | Some payload \<Rightarrow>
          if topic msg = TOPIC_SENSOR
          then (None, handle_sensor_message payload timestamp current_time w)
          else if topic msg = TOPIC_STATUS
          then handle_status_message payload timestamp w
          else (None, w))"

subsection \<open>query\_latest\_data\<close>

text \<open>
  \<^verbatim>\<open>ORDER BY timestamp DESC\<close> leaves the order of rows with equal timestamps open; the
  model takes the later row first. \<^verbatim>\<open>WHERE shelf_id = ?\<close> is read as Python's
  equality on the values bound. A negative \<^verbatim>\<open>LIMIT\<close> is no limit. Only the state
  that the query leaves behind is used below, not the rows it returns.
\<close>

definition latest :: "int \<Rightarrow> row list \<Rightarrow> row list" where
  "latest limit rows =
     (let ordered = rev (sort_key row_timestamp rows)
      in if limit < 0 then ordered else take (nat limit) ordered)"

definition query_latest_data :: "pyval \<Rightarrow> int \<Rightarrow> world \<Rightarrow> (pyerr + row list) \<times> world" where
  "query_latest_data shelf_id limit w =
     (case sensor_data w of
        None \<Rightarrow> (Inl OperationalError, w)
      | Some rows \<Rightarrow>
          if truthy shelf_id
          then (case bind_error shelf_id of
                  Some e \<Rightarrow> (Inl e, w)
                | None \<Rightarrow>
                    (Inr (latest limit (filter (\<lambda>r. py_eq (row_shelf_id r) shelf_id) rows)), w))
          else (Inr (latest limit rows), w))"

section \<open>The inventory patcher (iot\_firebase\_pb.py)\<close>

text \<open>
  The remote node \<^verbatim>\<open>product\<close> holds documents under keys; a document is a dict of
  fields, given by the list of its items. The children are listed in the order in which
  the store returns them. Authentication, failures of the network and the lines the
  script prints are outside the model.
\<close>

type_synonym document = "(string \<times> pyval) list"

type_synonym product_store = "(string \<times> document) list"

text \<open>
  \<^verbatim>\<open>products = db.child("product").get(id_token)\<close>, taken once when the module is
  loaded, is given by what \<^verbatim>\<open>products.each()\<close> hands back: the list of the items,
  each with a key and a value, and \<^verbatim>\<open>None\<close> when the node is empty (the client
  library then holds no list).
\<close>

definition child_get :: "product_store \<Rightarrow> (string \<times> document) list option" where
  "child_get store = (if store = [] then None else Some store)"

text \<open>
  \<^verbatim>\<open>db.child("product").child(key_to_update).update({"number": number}, id_token)\<close>
  writes the field \<^verbatim>\<open>number\<close> of the child under the key, creating the child when
  there is none.
\<close>

definition update_product_detail :: "string \<Rightarrow> pyval \<Rightarrow> product_store \<Rightarrow> product_store" where
  "update_product_detail key_to_update number store =
     AList.update key_to_update
       (AList.update ''number'' number
          (case map_of store key_to_update of None \<Rightarrow> [] | Some doc \<Rightarrow> doc))
       store"

text \<open>
  The loop returns the key of the first item whose \<^verbatim>\<open>rack_id\<close> equals the target, and
  \<^verbatim>\<open>False\<close> is returned when the loop ends. \<^verbatim>\<open>item.val()['rack_id']\<close> raises
  \<^verbatim>\<open>KeyError\<close> on a document without the field, and \<^verbatim>\<open>for item in None\<close> raises
  \<^verbatim>\<open>TypeError\<close>.
\<close>

fun scan_items :: "(string \<times> document) list \<Rightarrow> pyval \<Rightarrow> pyerr + pyval" where
  "scan_items [] target_rack_id = Inr (PyBool False)"
| "scan_items ((key, val) # items) target_rack_id =
     (case map_of val ''rack_id'' of
        None \<Rightarrow> Inl KeyError
      | Some rack_id \<Rightarrow>
          if py_eq target_rack_id rack_id then Inr (PyStr key)
          else scan_items items target_rack_id)"

definition get_product_ids_by_rack_id ::
    "(string \<times> document) list option \<Rightarrow> pyval \<Rightarrow> pyerr + pyval" where
  "get_product_ids_by_rack_id products target_rack_id =
     (case products of
        None \<Rightarrow> Inl TypeError
      | Some items \<Rightarrow> scan_items items target_rack_id)"

text \<open>
  \<^verbatim>\<open>if matching_ids:\<close> tests the truth value of what the scan returned, which is a key
  or \<^verbatim>\<open>False\<close>; no other value reaches the test.
\<close>

definition search_and_update ::
    "(string \<times> document) list option \<Rightarrow> pyval \<Rightarrow> pyval \<Rightarrow> product_store \<Rightarrow>
       pyerr option \<times> product_store" where
  "search_and_update products rack_id_to_search product_number store =
     (case get_product_ids_by_rack_id products rack_id_to_search of
        Inl e \<Rightarrow> (Some e, store)
      | Inr matching_ids \<Rightarrow>
          if truthy matching_ids
          then (case matching_ids of
                  PyStr key \<Rightarrow> (None, update_product_detail key product_number store)
                | _ \<Rightarrow> (None, store))
          else (None, store))"

text \<open>The module-level bindings and the call that ends the script.\<close>

definition rack_id_to_search :: pyval where
  "rack_id_to_search = PyStr ''2''"

definition product_number :: pyval where
  "product_number = PyStr ''0''"

definition run_module :: "product_store \<Rightarrow> pyerr option \<times> product_store" where
  "run_module store =
     (let products = child_get store
      in search_and_update products (PyStr ''A3'') (PyInt 120) store)"

section \<open>The specification's formula, the entry points and example inputs\<close>

text \<open>
  The glossary's fill percentage, as the specification words it:
  \<^verbatim>\<open>(maxDistance - measuredDistance) / maxDistance * 100\<close>, clamped to [0,100].
\<close>

definition spec_fill_percent :: "real \<Rightarrow> real \<Rightarrow> real" where
  "spec_fill_percent max_d d = max 0 (min 100 ((max_d - d) / max_d * 100))"

text \<open>
  The glossary's threshold, as the specification words it: the occupied space
  \<^verbatim>\<open>maxDistance - measuredDistance\<close> exceeds the 2 cm margin. At an infinite distance
  the occupied space is the opposite infinity, and no number is compared to NaN.
\<close>

fun spec_exceeds_margin :: "real \<Rightarrow> pyfloat \<Rightarrow> bool" where
  "spec_exceeds_margin max_d (Finite d) = (max_d - d > 2)"
| "spec_exceeds_margin max_d PosInf = False"
| "spec_exceeds_margin max_d NegInf = True"
| "spec_exceeds_margin max_d NaN = False"

text \<open>
  A value that a \<^verbatim>\<open>NOT NULL\<close> column of \<^verbatim>\<open>sensor_data\<close> accepts: the driver binds
  it, and it is not stored as \<^verbatim>\<open>NULL\<close>.
\<close>

definition storable :: "pyval \<Rightarrow> bool" where
  "storable v = (bind_error v = None \<and> \<not> sql_null v)"

text \<open>
  The entry points of the ingester: \<^verbatim>\<open>main\<close> calls \<^verbatim>\<open>init_database\<close>, the client
  calls the two callbacks, and \<^verbatim>\<open>save_to_database\<close> and \<^verbatim>\<open>query_latest_data\<close> are
  the functions that open the store.
\<close>

datatype operation =
    InitDatabase
  | SaveToDatabase pyval pyval bool pyfloat timestamp
  | OnConnect int
  | OnMessage mqtt_msg timestamp timestamp
  | QueryLatestData pyval int

fun perform :: "operation \<Rightarrow> world \<Rightarrow> world" where
  "perform InitDatabase w = init_database w"
| "perform (SaveToDatabase shelf_id distance_cm occupied fill_percent current_time) w =
     snd (save_to_database shelf_id distance_cm occupied fill_percent current_time w)"
| "perform (OnConnect rc) w = on_connect rc w"
| "perform (OnMessage msg timestamp current_time) w = snd (on_message msg timestamp current_time w)"
| "perform (QueryLatestData shelf_id limit) w = snd (query_latest_data shelf_id limit w)"

text \<open>Concrete inputs for the examples below.\<close>

definition example_world :: world where
  "example_world = \<lparr>sensor_data = Some [], console = [], subscriptions = []\<rparr>"

definition example_reading :: mqtt_msg where
  "example_reading =
     \<lparr>topic = ''shelf/sensor'',
      payload_bytes = Some (Some (PyDict [(''shelf_id'', PyStr ''B1''), (''distance_cm'', PyInt 5)]))\<rparr>"

definition example_store :: product_store where
  "example_store =
     [(''-k1'', [(''rack_id'', PyStr ''2''), (''number'', PyInt 1)]),
      (''-k2'', [(''rack_id'', PyStr ''A3''), (''number'', PyInt 7)])]"

section \<open>Shared facts\<close>

subsection \<open>analyze\_shelf\_data\<close>

lemma shelf_config_positive: "SHELF_CONFIG s = Some config \<Longrightarrow> 0 < max_distance config"
  by (auto simp: SHELF_CONFIG_def split: if_splits)

lemma clamp_finite:
  "float_max (Finite 0) (float_min (Finite 100) (Finite y)) = Finite (max 0 (min 100 y))"
  by (simp add: float_max_def float_min_def max_def min_def)

lemma clamp_range:
  "\<exists>x. float_max (Finite 0) (float_min (Finite 100) a) = Finite x \<and> 0 \<le> x \<and> x \<le> 100"
  by (cases a) (auto simp: float_max_def float_min_def)

lemma analyze_finite:
  assumes "SHELF_CONFIG s = Some config" and "to_float distance_cm = Inr (Finite d)"
  shows "analyze_shelf_data (PyStr s) distance_cm =
           Inr (2 < max_distance config - d,
                Finite (if 2 < max_distance config - d
                        then max 0 (min 100 ((max_distance config - d) / max_distance config * 100))
                        else 0))"
  using assms shelf_config_positive [OF assms(1)]
  by (simp add: analyze_shelf_data_def shelf_lookup_def Let_def float_div_def clamp_finite)

lemma analyze_infinite:
  assumes "SHELF_CONFIG s = Some config"
  shows "to_float distance_cm = Inr PosInf \<Longrightarrow>
           analyze_shelf_data (PyStr s) distance_cm = Inr (False, Finite 0)"
    and "to_float distance_cm = Inr NegInf \<Longrightarrow>
           analyze_shelf_data (PyStr s) distance_cm = Inr (True, Finite 100)"
    and "to_float distance_cm = Inr NaN \<Longrightarrow>
           analyze_shelf_data (PyStr s) distance_cm = Inr (False, Finite 0)"
  using assms shelf_config_positive [OF assms]
  by (simp_all add: analyze_shelf_data_def shelf_lookup_def Let_def float_div_def
        float_max_def float_min_def)

lemma analyze_raises:
  assumes "SHELF_CONFIG s = Some config" and "to_float distance_cm = Inl e"
  shows "analyze_shelf_data (PyStr s) distance_cm = Inl e"
  using assms by (simp add: analyze_shelf_data_def shelf_lookup_def)

lemma analyze_unknown:
  "shelf_lookup shelf_id = Inr None \<Longrightarrow>
     analyze_shelf_data shelf_id distance_cm = Inr (False, Finite 0)"
  by (simp add: analyze_shelf_data_def)

lemma analyze_bounds:
  assumes "analyze_shelf_data shelf_id distance_cm = Inr (occupied, fill_percent)"
  shows "\<exists>x. fill_percent = Finite x \<and> 0 \<le> x \<and> x \<le> 100"
proof -
  have "fill_percent = Finite 0
        \<or> (\<exists>a. fill_percent = float_max (Finite 0) (float_min (Finite 100) a))"
    using assms
    by (auto simp: analyze_shelf_data_def Let_def split: sum.splits option.splits if_splits)
  then show ?thesis using clamp_range by auto
qed

lemma to_float_PyFloat: "to_float (PyFloat a) = Inr a"
  by simp

lemma to_float_PyInt_small: "\<bar>n\<bar> < float_limit \<Longrightarrow> to_float (PyInt n) = Inr (Finite (of_int n))"
  by simp

lemma float_limit_bounds: "2 ^ 63 < float_limit" "float_limit < 10 ^ 400"
  by (simp_all add: float_limit_def)

lemma analyze_example_A1:
  "analyze_shelf_data (PyStr ''A1'') (PyFloat (Finite 10)) = Inr (True, Finite (200 / 3))"
  by (simp add: analyze_shelf_data_def shelf_lookup_def SHELF_CONFIG_def float_div_def
        float_max_def float_min_def)

lemma analyze_example_B1: "analyze_shelf_data (PyStr ''B1'') (PyInt 5) = Inr (True, Finite 75)"
  by (simp add: analyze_shelf_data_def shelf_lookup_def SHELF_CONFIG_def float_div_def
        float_max_def float_min_def float_limit_def)

lemma analyze_example_overflow:
  "analyze_shelf_data (PyStr ''A1'') (PyInt (10 ^ 400)) = Inl OverflowError"
  using float_limit_bounds(2)
  by (simp add: analyze_shelf_data_def shelf_lookup_def SHELF_CONFIG_def)

subsection \<open>What each function does to the store and to the subscriptions\<close>

lemma print_sensor_data [simp]: "sensor_data (print e w) = sensor_data w"
  by (simp add: print_def)

lemma print_subscriptions [simp]: "subscriptions (print e w) = subscriptions w"
  by (simp add: print_def)

lemma print_stored_rows [simp]: "stored_rows (print e w) = stored_rows w"
  by (simp add: stored_rows_def)

lemma init_database_rows: "stored_rows (init_database w) = stored_rows w"
  by (simp add: init_database_def stored_rows_def split: option.splits)

lemma save_to_database_rows:
  "stored_rows (snd (save_to_database shelf_id distance_cm occupied fill_percent current_time w)) =
     stored_rows w @
       (if fst (save_to_database shelf_id distance_cm occupied fill_percent current_time w)
        then [\<lparr>row_shelf_id = shelf_id, row_distance_cm = distance_cm,
               row_occupied = (if occupied then 1 else 0), row_fill_percent = fill_percent,
               row_timestamp = current_time\<rparr>]
        else [])"
  by (simp add: save_to_database_def sql_insert_def stored_rows_def split: option.splits)

lemma save_to_database_stored:
  assumes "sensor_data w = Some rows"
      and "bind_error shelf_id = None" and "bind_error distance_cm = None"
      and "\<not> sql_null shelf_id" and "\<not> sql_null distance_cm" and "fill_percent \<noteq> NaN"
  shows "sensor_data (snd (save_to_database shelf_id distance_cm occupied fill_percent current_time w)) =
           Some (rows @ [\<lparr>row_shelf_id = shelf_id, row_distance_cm = distance_cm,
                          row_occupied = (if occupied then 1 else 0),
                          row_fill_percent = fill_percent, row_timestamp = current_time\<rparr>])"
  using assms by (simp add: save_to_database_def sql_insert_def)

lemma save_to_database_refused:
  assumes "bind_error shelf_id \<noteq> None \<or> bind_error distance_cm \<noteq> None
           \<or> sql_null shelf_id \<or> sql_null distance_cm"
  shows "sensor_data (snd (save_to_database shelf_id distance_cm occupied fill_percent current_time w)) =
           sensor_data w"
  using assms by (auto simp: save_to_database_def sql_insert_def split: option.splits)


lemma on_connect_rows: "stored_rows (on_connect rc w) = stored_rows w"
  by (simp add: on_connect_def stored_rows_def)

lemma handle_sensor_message_rows:
  "\<exists>new. stored_rows (handle_sensor_message payload timestamp current_time w) = stored_rows w @ new
     \<and> length new \<le> 1
     \<and> (\<forall>r\<in>set new. \<exists>x. row_fill_percent r = Finite x \<and> 0 \<le> x \<and> x \<le> 100)"
  by (auto simp: handle_sensor_message_def save_to_database_rows dest!: analyze_bounds
           split: option.splits sum.splits bool.splits prod.splits)


lemma handle_status_message_sensor_data:
  "sensor_data (snd (handle_status_message payload timestamp w)) = sensor_data w"
  by (simp add: handle_status_message_def Let_def split: option.splits sum.splits pyfloat.splits)


lemma query_latest_data_world: "snd (query_latest_data shelf_id limit w) = w"
  by (simp add: query_latest_data_def split: option.splits)

lemma on_message_rows:
  "\<exists>new. stored_rows (snd (on_message msg timestamp current_time w)) = stored_rows w @ new
     \<and> length new \<le> 1
     \<and> (\<forall>r\<in>set new. \<exists>x. row_fill_percent r = Finite x \<and> 0 \<le> x \<and> x \<le> 100)"
proof (cases "payload_bytes msg")
  case None
  then show ?thesis by (simp add: on_message_def)
next
  case (Some payload)
  show ?thesis
  proof (cases "topic msg = TOPIC_SENSOR")
    case True
    with Some show ?thesis
      using handle_sensor_message_rows [of payload timestamp current_time w]
      by (simp add: on_message_def)
  next
    case False
    with Some have "stored_rows (snd (on_message msg timestamp current_time w)) = stored_rows w"
      by (simp add: on_message_def stored_rows_def handle_status_message_sensor_data)
    then show ?thesis by simp
  qed
qed

lemma topics_distinct:
  "TOPIC_SENSOR \<noteq> TOPIC_STATUS" "TOPIC_STATUS \<noteq> TOPIC_SENSOR"
  "TOPIC_COMMAND \<noteq> TOPIC_SENSOR" "TOPIC_COMMAND \<noteq> TOPIC_STATUS"
  by (simp_all add: TOPIC_SENSOR_def TOPIC_STATUS_def TOPIC_COMMAND_def)


lemma sensor_message_valid:
  assumes "map_of d ''distance_cm'' = Some distance_cm"
      and "num_of distance_cm = Some a" and "a = PosInf \<or> (\<exists>x. a = Finite x \<and> 0 \<le> x)"
      and "shelf_id = (case map_of d ''shelf_id'' of None \<Rightarrow> PyStr ''N/A'' | Some v \<Rightarrow> v)"
      and "analyze_shelf_data shelf_id distance_cm = Inr (occupied, fill_percent)"
  shows "handle_sensor_message (Some (PyDict d)) timestamp current_time w =
           print (SensorReport timestamp shelf_id distance_cm occupied fill_percent)
             (snd (save_to_database shelf_id distance_cm occupied fill_percent current_time w))"
proof -
  have s: "py_get (PyDict d) ''shelf_id'' (PyStr ''N/A'') = Inr shelf_id"
    using assms(4) by (simp add: py_get_def split: option.splits)
  have v: "py_get (PyDict d) ''distance_cm'' (PyInt (- 1)) = Inr distance_cm"
    using assms(1) by (simp add: py_get_def)
  have ne: "\<not> py_eq distance_cm (PyInt (- 1))"
    using assms(2,3) by (cases distance_cm) (auto simp: float_eq_def split: if_splits)
  have lt: "py_lt_num distance_cm 0 = Inr False"
    using assms(2,3) by (auto simp: py_lt_num_def)
  show ?thesis
    using s v ne lt assms(5) by (simp add: handle_sensor_message_def)
qed

lemma example_reading_rows:
  "stored_rows (snd (on_message example_reading 7 8 example_world)) =
     [\<lparr>row_shelf_id = PyStr ''B1'', row_distance_cm = PyInt 5, row_occupied = 1,
       row_fill_percent = Finite 75, row_timestamp = 8\<rparr>]"
  by (simp add: on_message_def example_reading_def example_world_def TOPIC_SENSOR_def
        handle_sensor_message_def py_get_def py_lt_num_def float_eq_def analyze_example_B1
        save_to_database_def sql_insert_def stored_rows_def print_def)

subsection \<open>The scan and the update of the patcher\<close>

lemma scan_first_match:
  assumes "\<forall>(k, d)\<in>set pre. \<exists>r. map_of d ''rack_id'' = Some r \<and> \<not> py_eq target r"
      and "map_of doc ''rack_id'' = Some r" and "py_eq target r"
  shows "scan_items (pre @ (key, doc) # post) target = Inr (PyStr key)"
  using assms by (induction pre) auto

lemma update_first_key:
  "key \<notin> fst ` set pre \<Longrightarrow>
     AList.update key v (pre @ (key, d) # post) = pre @ (key, v) # post"
  by (induction pre) auto

lemma update_product_detail_at:
  assumes "distinct (map fst store)" and "store = pre @ (key, doc) # post"
  shows "update_product_detail key number store =
           pre @ (key, AList.update ''number'' number doc) # post"
proof -
  from assms have notin: "key \<notin> fst ` set pre" by auto
  with assms have "map_of store key = Some doc"
    by (simp add: map_of_append map_add_def map_of_eq_None_iff [THEN iffD2] split: option.splits)
  with notin assms(2) show ?thesis
    by (simp add: update_product_detail_def update_first_key)
qed

lemma example_scan_A3:
  "get_product_ids_by_rack_id (child_get example_store) (PyStr ''A3'') = Inr (PyStr ''-k2'')"
  by (simp add: example_store_def child_get_def get_product_ids_by_rack_id_def)

lemma example_scan_2:
  "get_product_ids_by_rack_id (child_get example_store) (PyStr ''2'') = Inr (PyStr ''-k1'')"
  by (simp add: example_store_def child_get_def get_product_ids_by_rack_id_def)

lemma example_store_split:
  "distinct (map fst example_store)"
  "example_store =
     [(''-k1'', [(''rack_id'', PyStr ''2''), (''number'', PyInt 1)])] @
     (''-k2'', [(''rack_id'', PyStr ''A3''), (''number'', PyInt 7)]) # []"
  by (simp_all add: example_store_def)

section \<open>The claims about the ingester\<close>

text \<open>
  C1 (as the specification states it, refuted): for a shelf of \<open>SHELF_CONFIG\<close> and a
  non-negative distance the fill percentage would be the clamped formula. Shelf A1 has
  maximum distance 30; at distance 29 the formula gives 10/3, and
  \<open>analyze_shelf_data\<close> returns 0, because the occupied space 1 does not exceed 2.
  At the int 10^400 the subtraction raises \<open>OverflowError\<close> and nothing is returned.
\<close>

theorem fill_percent_formula_counterexample:
  "SHELF_CONFIG ''A1'' = Some \<lparr>max_distance = 30\<rparr> \<and> (0::real) \<le> 29
   \<and> analyze_shelf_data (PyStr ''A1'') (PyFloat (Finite 29)) = Inr (False, Finite 0)
   \<and> spec_fill_percent 30 29 = 10 / 3 \<and> spec_fill_percent 30 29 \<noteq> 0
   \<and> (0::int) \<le> 10 ^ 400
   \<and> analyze_shelf_data (PyStr ''A1'') (PyInt (10 ^ 400)) = Inl OverflowError"
  using analyze_example_overflow
  by (simp add: SHELF_CONFIG_def analyze_shelf_data_def shelf_lookup_def spec_fill_percent_def)

text \<open>
  C1 (amended): for a shelf of \<open>SHELF_CONFIG\<close> and a non-negative distance that is a
  finite float or an int within the float range, the fill percentage returned by
  \<open>analyze_shelf_data\<close> is the clamped formula when the occupied space exceeds 2 cm,
  and 0 otherwise; at an infinite distance it is 0.
\<close>

theorem fill_percent_formula_when_occupied:
  assumes "SHELF_CONFIG s = Some config" and "to_float distance_cm = Inr (Finite d)" and "0 \<le> d"
  shows "analyze_shelf_data (PyStr s) distance_cm =
           Inr (2 < max_distance config - d,
                Finite (if 2 < max_distance config - d
                        then spec_fill_percent (max_distance config) d else 0))
         \<and> analyze_shelf_data (PyStr s) (PyFloat PosInf) = Inr (False, Finite 0)"
  using analyze_finite [OF assms(1,2)] analyze_infinite(1) [OF assms(1) to_float_PyFloat]
  by (simp add: spec_fill_percent_def)

theorem fill_percent_formula_when_occupied_witness:
  "SHELF_CONFIG ''B1'' = Some \<lparr>max_distance = 20\<rparr>
   \<and> to_float (PyInt 5) = Inr (Finite 5) \<and> (0::real) \<le> 5
   \<and> analyze_shelf_data (PyStr ''B1'') (PyInt 5) = Inr (True, Finite 75)
   \<and> to_float (PyFloat (Finite 19)) = Inr (Finite 19) \<and> (0::real) \<le> 19
   \<and> analyze_shelf_data (PyStr ''B1'') (PyFloat (Finite 19)) = Inr (False, Finite 0)
   \<and> analyze_shelf_data (PyStr ''B1'') (PyFloat PosInf) = Inr (False, Finite 0)"
proof -
  have a: "SHELF_CONFIG ''B1'' = Some \<lparr>max_distance = 20\<rparr>" by (simp add: SHELF_CONFIG_def)
  have b: "to_float (PyInt 5) = Inr (Finite 5)" by (simp add: float_limit_def)
  have b': "to_float (PyFloat (Finite 19)) = Inr (Finite 19)" by simp
  have c: "(0::real) \<le> 5" and c': "(0::real) \<le> 19" by simp_all
  show ?thesis
    using a b c b' c' fill_percent_formula_when_occupied [OF a b c]
      fill_percent_formula_when_occupied [OF a b' c']
    by (simp add: spec_fill_percent_def)
qed

text \<open>
  C3: for a shelf of \<open>SHELF_CONFIG\<close>, \<open>analyze_shelf_data\<close> returns on every float and
  on every int within the float range, and whenever it returns, on any distance, its
  occupied flag is true exactly when the occupied space (maximum distance minus
  measured distance) exceeds 2. On an int beyond the float range the subtraction
  raises \<open>OverflowError\<close> and no flag is returned.
\<close>

theorem occupied_iff_space_exceeds_margin:
  assumes "SHELF_CONFIG s = Some config"
  shows "(\<exists>fill_percent. analyze_shelf_data (PyStr s) (PyFloat a) =
            Inr (spec_exceeds_margin (max_distance config) a, fill_percent))
         \<and> (\<bar>n\<bar> < float_limit \<longrightarrow>
              (\<exists>fill_percent. analyze_shelf_data (PyStr s) (PyInt n) =
                 Inr (2 < max_distance config - of_int n, fill_percent)))
         \<and> (float_limit \<le> \<bar>n\<bar> \<longrightarrow> analyze_shelf_data (PyStr s) (PyInt n) = Inl OverflowError)
         \<and> (\<forall>occupied fill_percent.
              analyze_shelf_data (PyStr s) distance_cm = Inr (occupied, fill_percent) \<longrightarrow>
              (\<exists>d. to_float distance_cm = Inr d
                 \<and> occupied = spec_exceeds_margin (max_distance config) d))"
proof (intro conjI allI impI)
  show "\<exists>fill_percent. analyze_shelf_data (PyStr s) (PyFloat a) =
          Inr (spec_exceeds_margin (max_distance config) a, fill_percent)"
    using analyze_finite [OF assms, of "PyFloat a"] analyze_infinite [OF assms, of "PyFloat a"]
    by (cases a) simp_all
next
  assume "\<bar>n\<bar> < float_limit"
  then show "\<exists>fill_percent. analyze_shelf_data (PyStr s) (PyInt n) =
          Inr (2 < max_distance config - of_int n, fill_percent)"
    using analyze_finite [OF assms, of "PyInt n" "of_int n"] by simp
next
  assume "float_limit \<le> \<bar>n\<bar>"
  then show "analyze_shelf_data (PyStr s) (PyInt n) = Inl OverflowError"
    using analyze_raises [OF assms, of "PyInt n" OverflowError] by simp
next
  fix occupied fill_percent
  assume r: "analyze_shelf_data (PyStr s) distance_cm = Inr (occupied, fill_percent)"
  show "\<exists>d. to_float distance_cm = Inr d \<and> occupied = spec_exceeds_margin (max_distance config) d"
  proof (cases "to_float distance_cm")
    case (Inl e)
    with r analyze_raises [OF assms Inl] show ?thesis by simp
  next
    case (Inr d)
    with r analyze_finite [OF assms, of distance_cm] analyze_infinite [OF assms, of distance_cm]
    show ?thesis by (cases d) auto
  qed
qed

theorem occupied_iff_space_exceeds_margin_witness:
  "SHELF_CONFIG ''A2'' = Some \<lparr>max_distance = 30\<rparr>
   \<and> (\<exists>fill_percent. analyze_shelf_data (PyStr ''A2'') (PyFloat (Finite 28)) = Inr (False, fill_percent))
   \<and> (\<exists>fill_percent. analyze_shelf_data (PyStr ''A2'') (PyFloat (Finite (55 / 2))) =
         Inr (True, fill_percent))
   \<and> (\<exists>fill_percent. analyze_shelf_data (PyStr ''A2'') (PyFloat NegInf) = Inr (True, fill_percent))
   \<and> \<bar>27 :: int\<bar> < float_limit
   \<and> (\<exists>fill_percent. analyze_shelf_data (PyStr ''A2'') (PyInt 27) = Inr (True, fill_percent))
   \<and> float_limit \<le> \<bar>10 ^ 400\<bar>
   \<and> analyze_shelf_data (PyStr ''A2'') (PyInt (10 ^ 400)) = Inl OverflowError"
proof -
  have a: "SHELF_CONFIG ''A2'' = Some \<lparr>max_distance = 30\<rparr>" by (simp add: SHELF_CONFIG_def)
  have small: "\<bar>27 :: int\<bar> < float_limit" using float_limit_bounds(1) by simp
  have big: "float_limit \<le> \<bar>10 ^ 400\<bar>" using float_limit_bounds(2) by simp
  note inst = occupied_iff_space_exceeds_margin [OF a]
  have "\<exists>fill_percent. analyze_shelf_data (PyStr ''A2'') (PyFloat (Finite 28)) = Inr (False, fill_percent)"
    using inst [of "Finite 28"] by simp
  moreover
  have "\<exists>fill_percent. analyze_shelf_data (PyStr ''A2'') (PyFloat (Finite (55 / 2))) =
      Inr (True, fill_percent)"
    using inst [of "Finite (55 / 2)"] by simp
  moreover
  have "\<exists>fill_percent. analyze_shelf_data (PyStr ''A2'') (PyFloat NegInf) = Inr (True, fill_percent)"
    using inst [of NegInf] by simp
  moreover
  have "\<exists>fill_percent. analyze_shelf_data (PyStr ''A2'') (PyInt 27) = Inr (True, fill_percent)"
    using inst [of _ 27] small by simp
  moreover
  have "analyze_shelf_data (PyStr ''A2'') (PyInt (10 ^ 400)) = Inl OverflowError"
    using inst [of _ "10 ^ 400"] big by blast
  ultimately show ?thesis using a small big by blast
qed

text \<open>
  C4: whatever the shelf identifier and the distance, a fill percentage returned by
  \<open>analyze_shelf_data\<close> is a finite float in [0,100]; the function returns on every
  identifier that is not a key of \<open>SHELF_CONFIG\<close>, and on a string with every float
  (the infinities and NaN included) and every int within the float range, while an
  int beyond it on a configured shelf raises \<open>OverflowError\<close> and produces nothing;
  and every row that \<open>on_message\<close> adds to the store has its fill percentage in
  [0,100].
\<close>

theorem fill_percent_in_range:
  "(\<forall>occupied fill_percent.
      analyze_shelf_data shelf_id distance_cm = Inr (occupied, fill_percent) \<longrightarrow>
      (\<exists>x. fill_percent = Finite x \<and> 0 \<le> x \<and> x \<le> 100))
   \<and> (shelf_lookup shelf_id = Inr None \<longrightarrow>
        analyze_shelf_data shelf_id distance_cm = Inr (False, Finite 0))
   \<and> (\<exists>occupied fill_percent. analyze_shelf_data (PyStr s) (PyFloat a) = Inr (occupied, fill_percent))
   \<and> (\<bar>n\<bar> < float_limit \<longrightarrow>
        (\<exists>occupied fill_percent. analyze_shelf_data (PyStr s) (PyInt n) = Inr (occupied, fill_percent)))
   \<and> (SHELF_CONFIG s \<noteq> None \<and> float_limit \<le> \<bar>n\<bar> \<longrightarrow>
        analyze_shelf_data (PyStr s) (PyInt n) = Inl OverflowError)
   \<and> (\<exists>new. stored_rows (snd (on_message msg timestamp current_time w)) = stored_rows w @ new
         \<and> (\<forall>r\<in>set new. \<exists>x. row_fill_percent r = Finite x \<and> 0 \<le> x \<and> x \<le> 100))"
proof (intro conjI)
  show "\<forall>occupied fill_percent.
      analyze_shelf_data shelf_id distance_cm = Inr (occupied, fill_percent) \<longrightarrow>
      (\<exists>x. fill_percent = Finite x \<and> 0 \<le> x \<and> x \<le> 100)"
    using analyze_bounds by blast
  show "shelf_lookup shelf_id = Inr None \<longrightarrow>
        analyze_shelf_data shelf_id distance_cm = Inr (False, Finite 0)"
    using analyze_unknown by blast
  have returns: "\<exists>occupied fill_percent. analyze_shelf_data (PyStr s) v = Inr (occupied, fill_percent)"
    if "to_float v = Inr d" for v d
  proof (cases "SHELF_CONFIG s")
    case None
    then show ?thesis by (auto simp: analyze_unknown shelf_lookup_def)
  next
    case (Some config)
    with that analyze_finite [OF Some, of v] analyze_infinite [OF Some, of v]
    show ?thesis by (cases d) auto
  qed
  show "\<exists>occupied fill_percent. analyze_shelf_data (PyStr s) (PyFloat a) = Inr (occupied, fill_percent)"
    by (rule returns [of _ a]) simp
  show "\<bar>n\<bar> < float_limit \<longrightarrow>
        (\<exists>occupied fill_percent. analyze_shelf_data (PyStr s) (PyInt n) = Inr (occupied, fill_percent))"
    using returns [of "PyInt n" "Finite (of_int n)"] by simp
  show "SHELF_CONFIG s \<noteq> None \<and> float_limit \<le> \<bar>n\<bar> \<longrightarrow>
        analyze_shelf_data (PyStr s) (PyInt n) = Inl OverflowError"
    using analyze_raises [of s _ "PyInt n" OverflowError] by auto
  show "\<exists>new. stored_rows (snd (on_message msg timestamp current_time w)) = stored_rows w @ new
         \<and> (\<forall>r\<in>set new. \<exists>x. row_fill_percent r = Finite x \<and> 0 \<le> x \<and> x \<le> 100)"
    using on_message_rows [of msg timestamp current_time w] by blast
qed

theorem fill_percent_in_range_witness:
  "analyze_shelf_data (PyStr ''A1'') (PyFloat (Finite 10)) = Inr (True, Finite (200 / 3))
   \<and> (\<exists>x. Finite (200 / 3) = Finite x \<and> 0 \<le> x \<and> x \<le> 100)
   \<and> shelf_lookup (PyStr ''Z9'') = Inr None
   \<and> analyze_shelf_data (PyStr ''Z9'') (PyInt (10 ^ 400)) = Inr (False, Finite 0)
   \<and> \<bar>5 :: int\<bar> < float_limit
   \<and> (\<exists>occupied fill_percent. analyze_shelf_data (PyStr ''A1'') (PyInt 5) = Inr (occupied, fill_percent))
   \<and> SHELF_CONFIG ''A1'' \<noteq> None \<and> float_limit \<le> \<bar>10 ^ 400\<bar>
   \<and> analyze_shelf_data (PyStr ''A1'') (PyInt (10 ^ 400)) = Inl OverflowError
   \<and> stored_rows (snd (on_message example_reading 7 8 example_world)) =
       [\<lparr>row_shelf_id = PyStr ''B1'', row_distance_cm = PyInt 5, row_occupied = 1,
         row_fill_percent = Finite 75, row_timestamp = 8\<rparr>]
   \<and> (\<exists>x. row_fill_percent \<lparr>row_shelf_id = PyStr ''B1'', row_distance_cm = PyInt 5,
                              row_occupied = 1, row_fill_percent = Finite 75, row_timestamp = 8\<rparr> =
             Finite x \<and> 0 \<le> x \<and> x \<le> 100)"
proof -
  let ?r = "\<lparr>row_shelf_id = PyStr ''B1'', row_distance_cm = PyInt 5, row_occupied = 1,
         row_fill_percent = Finite 75, row_timestamp = 8\<rparr>"
  note inst = fill_percent_in_range
    [of "PyStr ''A1''" "PyFloat (Finite 10)" "''A1''" _ 5 example_reading 7 8 example_world]
  note inst_unknown = fill_percent_in_range
    [of "PyStr ''Z9''" "PyInt (10 ^ 400)" "''A1''" _ "10 ^ 400" example_reading 7 8 example_world]
  have empty: "stored_rows example_world = []"
    by (simp add: stored_rows_def example_world_def)
  have unknown: "shelf_lookup (PyStr ''Z9'') = Inr None"
    by (simp add: shelf_lookup_def SHELF_CONFIG_def)
  have known: "SHELF_CONFIG ''A1'' \<noteq> None" by (simp add: SHELF_CONFIG_def)
  have small: "\<bar>5 :: int\<bar> < float_limit" using float_limit_bounds(1) by simp
  have big: "float_limit \<le> \<bar>10 ^ 400\<bar>" using float_limit_bounds(2) by simp
  from inst analyze_example_A1
  have 1: "\<exists>x. Finite (200 / 3) = Finite x \<and> 0 \<le> x \<and> x \<le> 100" by blast
  from inst_unknown unknown
  have 2: "analyze_shelf_data (PyStr ''Z9'') (PyInt (10 ^ 400)) = Inr (False, Finite 0)" by blast
  from inst small
  have 3: "\<exists>occupied fill_percent. analyze_shelf_data (PyStr ''A1'') (PyInt 5) = Inr (occupied, fill_percent)"
    by blast
  from inst_unknown known big
  have 4: "analyze_shelf_data (PyStr ''A1'') (PyInt (10 ^ 400)) = Inl OverflowError" by blast
  from inst example_reading_rows empty
  have 5: "\<exists>x. row_fill_percent ?r = Finite x \<and> 0 \<le> x \<and> x \<le> 100" by simp
  from analyze_example_A1 1 unknown 2 small 3 known big 4 example_reading_rows 5
  show ?thesis by (intro conjI)
qed

text \<open>
  C5: the table \<open>sensor_data\<close> is append-only. Whatever the ingester does (initialise
  the database, save a reading, answer a connection or a message, query the latest
  data), the rows stored before are all still there, unchanged and in place, followed
  by at most one new row; and \<open>query_latest_data\<close> changes nothing at all.
\<close>

theorem sensor_data_append_only:
  "(\<exists>new. stored_rows (perform op w) = stored_rows w @ new \<and> length new \<le> 1)
   \<and> snd (query_latest_data shelf_id limit w) = w"
proof
  show "\<exists>new. stored_rows (perform op w) = stored_rows w @ new \<and> length new \<le> 1"
  proof (cases op)
    case InitDatabase
    then show ?thesis by (simp add: init_database_rows)
  next
    case (SaveToDatabase shelf_id distance_cm occupied fill_percent current_time)
    then show ?thesis by (simp add: save_to_database_rows)
  next
    case (OnConnect rc)
    then show ?thesis by (simp add: on_connect_rows)
  next
    case (OnMessage msg timestamp current_time)
    then show ?thesis using on_message_rows [of msg timestamp current_time w] by auto
  next
    case (QueryLatestData shelf_id limit)
    then show ?thesis by (simp add: query_latest_data_world)
  qed
  show "snd (query_latest_data shelf_id limit w) = w"
    by (rule query_latest_data_world)
qed

theorem sensor_data_append_only_witness:
  "(\<exists>new. stored_rows (perform (OnMessage example_reading 7 8)
                         (perform (OnMessage example_reading 5 6) example_world)) =
           stored_rows (perform (OnMessage example_reading 5 6) example_world) @ new
         \<and> length new \<le> 1)
   \<and> snd (query_latest_data (PyStr ''B1'') 10 (perform (OnMessage example_reading 5 6) example_world)) =
       perform (OnMessage example_reading 5 6) example_world"
  by (rule sensor_data_append_only)



text \<open>
  C9: a sensor message whose \<open>distance_cm\<close> is absent (read as -1) or negative is
  reported as invalid and nothing is written: the table after \<open>handle_sensor_message\<close>
  is the table before.
\<close>

theorem invalid_distance_not_stored:
  assumes "payload = Some (PyDict d)"
      and "map_of d ''distance_cm'' = None
           \<or> (\<exists>v a. map_of d ''distance_cm'' = Some v \<and> num_of v = Some a
                 \<and> float_lt a (Finite 0))"
  shows "(\<exists>shelf_id distance_cm.
            handle_sensor_message payload timestamp current_time w =
              print (InvalidData timestamp shelf_id distance_cm) w)
         \<and> sensor_data (handle_sensor_message payload timestamp current_time w) = sensor_data w"
proof -
  from assms(2) obtain v a where v: "py_get (PyDict d) ''distance_cm'' (PyInt (- 1)) = Inr v"
      and a: "num_of v = Some a" "float_lt a (Finite 0)"
    by (auto simp: py_get_def)
  define s where "s = (case map_of d ''shelf_id'' of None \<Rightarrow> PyStr ''N/A'' | Some u \<Rightarrow> u)"
  have s: "py_get (PyDict d) ''shelf_id'' (PyStr ''N/A'') = Inr s"
    by (simp add: py_get_def s_def split: option.splits)
  have "handle_sensor_message payload timestamp current_time w = print (InvalidData timestamp s v) w"
    using assms(1) v s a by (simp add: handle_sensor_message_def py_lt_num_def)
  then show ?thesis by auto
qed

theorem invalid_distance_not_stored_witness:
  "map_of [(''shelf_id'', PyStr ''A1'')] ''distance_cm'' = None
   \<and> sensor_data (handle_sensor_message (Some (PyDict [(''shelf_id'', PyStr ''A1'')])) 7 8
        example_world) = Some []
   \<and> map_of [(''shelf_id'', PyStr ''A1''), (''distance_cm'', PyFloat (Finite (- 3)))] ''distance_cm'' =
       Some (PyFloat (Finite (- 3)))
   \<and> num_of (PyFloat (Finite (- 3))) = Some (Finite (- 3)) \<and> float_lt (Finite (- 3)) (Finite 0)
   \<and> sensor_data (handle_sensor_message
        (Some (PyDict [(''shelf_id'', PyStr ''A1''), (''distance_cm'', PyFloat (Finite (- 3)))])) 7 8
        example_world) = Some []"
proof -
  let ?d1 = "[(''shelf_id'', PyStr ''A1'')]"
  let ?d2 = "[(''shelf_id'', PyStr ''A1''), (''distance_cm'', PyFloat (Finite (- 3)))]"
  have w: "sensor_data example_world = Some []"
    by (simp add: example_world_def)
  have h1: "map_of ?d1 ''distance_cm'' = None" by simp
  have h2: "map_of ?d2 ''distance_cm'' = Some (PyFloat (Finite (- 3)))
            \<and> num_of (PyFloat (Finite (- 3))) = Some (Finite (- 3))
            \<and> float_lt (Finite (- 3)) (Finite 0)"
    by simp
  have "sensor_data (handle_sensor_message (Some (PyDict ?d1)) 7 8 example_world) = Some []"
    using invalid_distance_not_stored [of "Some (PyDict ?d1)" ?d1 7 8 example_world] h1 w
    by simp
  moreover
  have "sensor_data (handle_sensor_message (Some (PyDict ?d2)) 7 8 example_world) = Some []"
    using invalid_distance_not_stored [of "Some (PyDict ?d2)" ?d2 7 8 example_world] h2 w
    by simp
  ultimately show ?thesis using h1 h2 by simp
qed

text \<open>
  C10 (as the specification states it, refuted): a row would be inserted for every
  message with an unknown shelf identifier and a non-negative distance. None is
  inserted when the identifier is \<open>null\<close> (the column is \<open>NOT NULL\<close>), when it is a
  string with a lone surrogate (it does not encode), when the distance is the int
  2^63 (it does not fit 64 bits), or when the table is missing: in each case
  \<open>save_to_database\<close> catches the exception and the table is as before.
\<close>

theorem unknown_shelf_not_stored_counterexample:
  "shelf_lookup PyNone = Inr None
   \<and> sensor_data (handle_sensor_message
        (Some (PyDict [(''shelf_id'', PyNone), (''distance_cm'', PyInt 5)])) 7 8 example_world) =
       sensor_data example_world
   \<and> shelf_lookup (PyStrSurrogate [55296]) = Inr None
   \<and> sensor_data (handle_sensor_message
        (Some (PyDict [(''shelf_id'', PyStrSurrogate [55296]), (''distance_cm'', PyInt 5)])) 7 8
        example_world) = sensor_data example_world
   \<and> shelf_lookup (PyStr ''Z9'') = Inr None
   \<and> sensor_data (handle_sensor_message
        (Some (PyDict [(''shelf_id'', PyStr ''Z9''), (''distance_cm'', PyInt (2 ^ 63))])) 7 8
        example_world) = sensor_data example_world
   \<and> sensor_data (handle_sensor_message
        (Some (PyDict [(''shelf_id'', PyStr ''Z9''), (''distance_cm'', PyInt 5)])) 7 8
        \<lparr>sensor_data = None, console = [], subscriptions = []\<rparr>) = None"
proof -
  have valid: "handle_sensor_message (Some (PyDict [(''shelf_id'', shelf_id), (''distance_cm'', PyInt n)]))
        7 8 w =
      print (SensorReport 7 shelf_id (PyInt n) False (Finite 0))
        (snd (save_to_database shelf_id (PyInt n) False (Finite 0) 8 w))"
    if "shelf_lookup shelf_id = Inr None" and "0 \<le> n" for shelf_id n w
    using that
    by (intro sensor_message_valid [where a = "Finite (of_int n)"] analyze_unknown) auto
  have 1: "shelf_lookup PyNone = Inr None" by (simp add: shelf_lookup_def)
  have 2: "shelf_lookup (PyStrSurrogate [55296]) = Inr None" by (simp add: shelf_lookup_def)
  have 3: "shelf_lookup (PyStr ''Z9'') = Inr None" by (simp add: shelf_lookup_def SHELF_CONFIG_def)
  show ?thesis
    using 1 2 3
    by (simp add: valid save_to_database_refused)
       (simp add: save_to_database_def sql_insert_def)
qed

text \<open>
  C10 (amended): for a sensor message whose shelf identifier is not a key of
  \<open>SHELF_CONFIG\<close> (\<open>N/A\<close> when the field is absent) and whose distance is a
  non-negative number, both being values that the \<open>NOT NULL\<close> columns accept,
  \<open>analyze_shelf_data\<close> returns not occupied and fill percentage 0, and, the table
  being there, \<open>handle_sensor_message\<close> appends the row of that reading to it all the
  same.
\<close>

theorem unknown_shelf_still_stored:
  assumes "payload = Some (PyDict d)"
      and "shelf_id = (case map_of d ''shelf_id'' of None \<Rightarrow> PyStr ''N/A'' | Some v \<Rightarrow> v)"
      and "shelf_lookup shelf_id = Inr None" and "storable shelf_id"
      and "map_of d ''distance_cm'' = Some distance_cm" and "num_of distance_cm = Some a"
      and "a = PosInf \<or> (\<exists>x. a = Finite x \<and> 0 \<le> x)" and "storable distance_cm"
      and "sensor_data w = Some rows"
  shows "analyze_shelf_data shelf_id distance_cm = Inr (False, Finite 0)
         \<and> sensor_data (handle_sensor_message payload timestamp current_time w) =
             Some (rows @ [\<lparr>row_shelf_id = shelf_id, row_distance_cm = distance_cm, row_occupied = 0,
                            row_fill_percent = Finite 0, row_timestamp = current_time\<rparr>])"
proof -
  have a: "analyze_shelf_data shelf_id distance_cm = Inr (False, Finite 0)"
    using assms(3) by (rule analyze_unknown)
  have "handle_sensor_message payload timestamp current_time w =
      print (SensorReport timestamp shelf_id distance_cm False (Finite 0))
        (snd (save_to_database shelf_id distance_cm False (Finite 0) current_time w))"
    unfolding assms(1) using assms(5,6,7,2) a by (rule sensor_message_valid)
  moreover
  have "sensor_data (snd (save_to_database shelf_id distance_cm False (Finite 0) current_time w)) =
          Some (rows @ [\<lparr>row_shelf_id = shelf_id, row_distance_cm = distance_cm, row_occupied = 0,
                            row_fill_percent = Finite 0, row_timestamp = current_time\<rparr>])"
    using save_to_database_stored [OF assms(9), of shelf_id distance_cm "Finite 0" False current_time]
      assms(4,8)
    by (simp add: storable_def)
  ultimately show ?thesis using a by simp
qed

theorem unknown_shelf_still_stored_witness:
  "shelf_lookup (PyStr ''N/A'') = Inr None \<and> storable (PyStr ''N/A'')
   \<and> map_of [(''distance_cm'', PyFloat (Finite 12))] ''shelf_id'' = None
   \<and> map_of [(''distance_cm'', PyFloat (Finite 12))] ''distance_cm'' = Some (PyFloat (Finite 12))
   \<and> num_of (PyFloat (Finite 12)) = Some (Finite 12) \<and> (0::real) \<le> 12
   \<and> storable (PyFloat (Finite 12))
   \<and> sensor_data example_world = Some []
   \<and> analyze_shelf_data (PyStr ''N/A'') (PyFloat (Finite 12)) = Inr (False, Finite 0)
   \<and> sensor_data (handle_sensor_message (Some (PyDict [(''distance_cm'', PyFloat (Finite 12))])) 7 8
        example_world) =
      Some [\<lparr>row_shelf_id = PyStr ''N/A'', row_distance_cm = PyFloat (Finite 12), row_occupied = 0,
             row_fill_percent = Finite 0, row_timestamp = 8\<rparr>]"
proof -
  let ?d = "[(''distance_cm'', PyFloat (Finite 12))]"
  have 1: "Some (PyDict ?d) = Some (PyDict ?d)" by simp
  have 2: "PyStr ''N/A'' = (case map_of ?d ''shelf_id'' of None \<Rightarrow> PyStr ''N/A'' | Some v \<Rightarrow> v)"
    by simp
  have 3: "shelf_lookup (PyStr ''N/A'') = Inr None" by (simp add: shelf_lookup_def SHELF_CONFIG_def)
  have 4: "storable (PyStr ''N/A'')" by (simp add: storable_def)
  have 5: "map_of ?d ''distance_cm'' = Some (PyFloat (Finite 12))" by simp
  have 6: "num_of (PyFloat (Finite 12)) = Some (Finite 12)" by simp
  have 7: "Finite 12 = PosInf \<or> (\<exists>x. Finite 12 = Finite x \<and> 0 \<le> x)" by simp
  have 8: "storable (PyFloat (Finite 12))" by (simp add: storable_def)
  have 9: "sensor_data example_world = Some []" by (simp add: example_world_def)
  show ?thesis
    using unknown_shelf_still_stored [OF 1 2 3 4 5 6 7 8 9, of 7 8] 3 4 5 6 8 9 by simp
qed

section \<open>The claims about the inventory patcher\<close>

text \<open>
  C2: on the collection as fetched, the scan of \<open>search_and_update\<close> goes through the
  documents in order; when a document's \<open>rack_id\<close> equals the target and none before
  it does, the scan returns that document's key, and the update sets the \<open>number\<close>
  field of that document to the given value. (Every document scanned has a \<open>rack_id\<close>,
  keys are unique and not empty, as in the remote store.)
\<close>

theorem search_and_update_first_match:
  assumes "distinct (map fst store)" and "store = pre @ (key, doc) # post"
      and "\<forall>(k, d)\<in>set pre. \<exists>r. map_of d ''rack_id'' = Some r \<and> \<not> py_eq target r"
      and "map_of doc ''rack_id'' = Some r" and "py_eq target r"
      and "key \<noteq> []"
  shows "get_product_ids_by_rack_id (child_get store) target = Inr (PyStr key)
         \<and> search_and_update (child_get store) target number store =
             (None, pre @ (key, AList.update ''number'' number doc) # post)
         \<and> map_of (AList.update ''number'' number doc) ''number'' = Some number"
proof -
  have "child_get store = Some (pre @ (key, doc) # post)"
    using assms(2) by (simp add: child_get_def)
  then have scan: "get_product_ids_by_rack_id (child_get store) target = Inr (PyStr key)"
    using scan_first_match [OF assms(3,4,5), of key post]
    by (simp add: get_product_ids_by_rack_id_def)
  moreover have "update_product_detail key number store =
      pre @ (key, AList.update ''number'' number doc) # post"
    using assms(1,2) by (rule update_product_detail_at)
  ultimately show ?thesis
    using assms(6) by (simp add: search_and_update_def update_conv')
qed

theorem search_and_update_first_match_witness:
  "distinct (map fst example_store)
   \<and> map_of [(''rack_id'', PyStr ''2''), (''number'', PyInt 1)] ''rack_id'' = Some (PyStr ''2'')
   \<and> \<not> py_eq (PyStr ''A3'') (PyStr ''2'')
   \<and> map_of [(''rack_id'', PyStr ''A3''), (''number'', PyInt 7)] ''rack_id'' = Some (PyStr ''A3'')
   \<and> py_eq (PyStr ''A3'') (PyStr ''A3'')
   \<and> get_product_ids_by_rack_id (child_get example_store) (PyStr ''A3'') = Inr (PyStr ''-k2'')
   \<and> search_and_update (child_get example_store) (PyStr ''A3'') (PyInt 120) example_store =
       (None, [(''-k1'', [(''rack_id'', PyStr ''2''), (''number'', PyInt 1)]),
               (''-k2'', [(''rack_id'', PyStr ''A3''), (''number'', PyInt 120)])])"
proof -
  let ?d1 = "[(''rack_id'', PyStr ''2''), (''number'', PyInt 1)]"
  let ?d2 = "[(''rack_id'', PyStr ''A3''), (''number'', PyInt 7)]"
  have 3: "\<forall>(k, d)\<in>set [(''-k1'', ?d1)]. \<exists>r. map_of d ''rack_id'' = Some r \<and> \<not> py_eq (PyStr ''A3'') r"
    by simp
  have 4: "map_of ?d2 ''rack_id'' = Some (PyStr ''A3'')" by simp
  have 5: "py_eq (PyStr ''A3'') (PyStr ''A3'')" by simp
  have 6: "''-k2'' \<noteq> []" by simp
  show ?thesis
    using search_and_update_first_match
            [OF example_store_split(1) example_store_split(2) 3 4 5 6, of "PyInt 120"]
          example_store_split(1)
    by simp
qed

text \<open>
  C7: \<open>update_product_detail\<close> leaves the document under every other key as it was,
  and in the document under the given key it writes the field \<open>number\<close> and leaves
  every other field as it was; the documents around it keep their places.
\<close>

theorem update_product_detail_frame:
  "(\<forall>k. k \<noteq> key \<longrightarrow> map_of (update_product_detail key number store) k = map_of store k)
   \<and> (distinct (map fst store) \<and> store = pre @ (key, doc) # post \<longrightarrow>
        (\<exists>doc'. update_product_detail key number store = pre @ (key, doc') # post
           \<and> map_of doc' ''number'' = Some number
           \<and> (\<forall>field. field \<noteq> ''number'' \<longrightarrow> map_of doc' field = map_of doc field)))"
proof (intro conjI allI impI)
  fix k :: string
  assume "k \<noteq> key"
  then show "map_of (update_product_detail key number store) k = map_of store k"
    by (simp add: update_product_detail_def update_conv')
next
  assume "distinct (map fst store) \<and> store = pre @ (key, doc) # post"
  then have "update_product_detail key number store =
      pre @ (key, AList.update ''number'' number doc) # post"
    using update_product_detail_at by blast
  then show "\<exists>doc'. update_product_detail key number store = pre @ (key, doc') # post
           \<and> map_of doc' ''number'' = Some number
           \<and> (\<forall>field. field \<noteq> ''number'' \<longrightarrow> map_of doc' field = map_of doc field)"
    by (simp add: update_conv')
qed

theorem update_product_detail_frame_witness:
  "''-k1'' \<noteq> ''-k2''
   \<and> map_of (update_product_detail ''-k2'' (PyInt 120) example_store) ''-k1'' =
       Some [(''rack_id'', PyStr ''2''), (''number'', PyInt 1)]
   \<and> distinct (map fst example_store)
   \<and> ''rack_id'' \<noteq> ''number''
   \<and> (\<exists>doc'. update_product_detail ''-k2'' (PyInt 120) example_store =
         [(''-k1'', [(''rack_id'', PyStr ''2''), (''number'', PyInt 1)])] @ (''-k2'', doc') # []
        \<and> map_of doc' ''number'' = Some (PyInt 120)
        \<and> map_of doc' ''rack_id'' = Some (PyStr ''A3''))"
proof -
  let ?d1 = "[(''rack_id'', PyStr ''2''), (''number'', PyInt 1)]"
  let ?d2 = "[(''rack_id'', PyStr ''A3''), (''number'', PyInt 7)]"
  note inst = update_product_detail_frame
    [of "''-k2''" "PyInt 120" example_store "[(''-k1'', ?d1)]" ?d2 "[]"]
  have n: "''-k1'' \<noteq> ''-k2''" "''rack_id'' \<noteq> ''number''" by simp_all
  from inst have other: "''-k1'' \<noteq> ''-k2'' \<longrightarrow>
      map_of (update_product_detail ''-k2'' (PyInt 120) example_store) ''-k1'' =
      map_of example_store ''-k1''"
    by (rule conjunct1 [THEN spec])
  then have a: "map_of (update_product_detail ''-k2'' (PyInt 120) example_store) ''-k1'' = Some ?d1"
    using n(1) by (simp add: example_store_def)
  from inst have "\<exists>doc'. update_product_detail ''-k2'' (PyInt 120) example_store =
         [(''-k1'', ?d1)] @ (''-k2'', doc') # []
        \<and> map_of doc' ''number'' = Some (PyInt 120)
        \<and> (\<forall>field. field \<noteq> ''number'' \<longrightarrow> map_of doc' field = map_of ?d2 field)"
    using example_store_split by (rule conjunct2 [THEN mp, OF _ conjI])
  then obtain doc' where
    d: "update_product_detail ''-k2'' (PyInt 120) example_store = [(''-k1'', ?d1)] @ (''-k2'', doc') # []"
      "map_of doc' ''number'' = Some (PyInt 120)"
      "\<forall>field. field \<noteq> ''number'' \<longrightarrow> map_of doc' field = map_of ?d2 field"
    by (elim exE conjE)
  from d(3) have "''rack_id'' \<noteq> ''number'' \<longrightarrow> map_of doc' ''rack_id'' = map_of ?d2 ''rack_id''"
    by (rule spec)
  with n(2) have "map_of doc' ''rack_id'' = Some (PyStr ''A3'')" by simp
  with d(1,2) have "\<exists>doc'. update_product_detail ''-k2'' (PyInt 120) example_store =
         [(''-k1'', ?d1)] @ (''-k2'', doc') # []
        \<and> map_of doc' ''number'' = Some (PyInt 120)
        \<and> map_of doc' ''rack_id'' = Some (PyStr ''A3'')"
    by (intro exI [of _ doc'] conjI)
  with a n example_store_split(1) show ?thesis by (intro conjI)
qed

text \<open>
  C8: the script's last statement searches for \<open>A3\<close> and writes 120, whatever the
  store holds; the module-level \<open>rack_id_to_search\<close>, which is \<open>2\<close>, plays no part:
  on a store with a document for each rack, the run leaves the number of rack 2 at 1,
  where a search for \<open>rack_id_to_search\<close> with \<open>product_number\<close> would have set it.
\<close>

theorem run_module_searches_A3:
  "run_module store = search_and_update (child_get store) (PyStr ''A3'') (PyInt 120) store
   \<and> rack_id_to_search = PyStr ''2''
   \<and> run_module example_store =
       (None, [(''-k1'', [(''rack_id'', PyStr ''2''), (''number'', PyInt 1)]),
               (''-k2'', [(''rack_id'', PyStr ''A3''), (''number'', PyInt 120)])])
   \<and> search_and_update (child_get example_store) rack_id_to_search product_number example_store =
       (None, [(''-k1'', [(''rack_id'', PyStr ''2''), (''number'', PyStr ''0'')]),
               (''-k2'', [(''rack_id'', PyStr ''A3''), (''number'', PyInt 7)])])"
proof (intro conjI)
  show "run_module store = search_and_update (child_get store) (PyStr ''A3'') (PyInt 120) store"
    by (simp add: run_module_def)
  show "rack_id_to_search = PyStr ''2''" by (simp add: rack_id_to_search_def)
  show "run_module example_store =
       (None, [(''-k1'', [(''rack_id'', PyStr ''2''), (''number'', PyInt 1)]),
               (''-k2'', [(''rack_id'', PyStr ''A3''), (''number'', PyInt 120)])])"
    by (simp add: run_module_def search_and_update_def example_scan_A3 update_product_detail_def)
       (simp add: example_store_def)
  show "search_and_update (child_get example_store) rack_id_to_search product_number example_store =
       (None, [(''-k1'', [(''rack_id'', PyStr ''2''), (''number'', PyStr ''0'')]),
               (''-k2'', [(''rack_id'', PyStr ''A3''), (''number'', PyInt 7)])])"
    by (simp add: search_and_update_def rack_id_to_search_def product_number_def
          example_scan_2 update_product_detail_def)
       (simp add: example_store_def)
qed

theorem run_module_searches_A3_witness:
  "run_module example_store =
     search_and_update (child_get example_store) (PyStr ''A3'') (PyInt 120) example_store
   \<and> run_module example_store \<noteq>
       search_and_update (child_get example_store) rack_id_to_search product_number example_store"
proof -
  note run = run_module_searches_A3 [of example_store]
  from run have a: "run_module example_store =
      search_and_update (child_get example_store) (PyStr ''A3'') (PyInt 120) example_store"
    by (rule conjunct1)
  from run have b: "run_module example_store =
       (None, [(''-k1'', [(''rack_id'', PyStr ''2''), (''number'', PyInt 1)]),
               (''-k2'', [(''rack_id'', PyStr ''A3''), (''number'', PyInt 120)])])"
    by (rule conjunct2 [THEN conjunct2, THEN conjunct1])
  from run have c: "search_and_update (child_get example_store) rack_id_to_search product_number
        example_store =
       (None, [(''-k1'', [(''rack_id'', PyStr ''2''), (''number'', PyStr ''0'')]),
               (''-k2'', [(''rack_id'', PyStr ''A3''), (''number'', PyInt 7)])])"
    by (rule conjunct2 [THEN conjunct2, THEN conjunct2])
  have "run_module example_store \<noteq>
      search_and_update (child_get example_store) rack_id_to_search product_number example_store"
    unfolding b c by simp
  with a show ?thesis by (rule conjI)
qed

end
